theory Spec2Isabelle
  imports Complex_Main "HOL-Library.Multiset" "HOL-Library.Sublist" "HOL-Library.Signed_Division"
begin

section \<open>Go values\<close>

text \<open>
  Go strings are byte sequences and are modelled as \<^typ>\<open>string\<close>; Go's \<open>int\<close> is modelled
  as \<^typ>\<open>int\<close>, with the 64-bit wrap-around written out where the source can overflow;
  \<open>float64\<close> is modelled as \<^typ>\<open>real\<close> (exact arithmetic: rounding error, infinities and
  NaN are outside the model); a pointer that may be nil is an \<^typ>\<open>'a option\<close>.
\<close>

definition isDigit :: "char \<Rightarrow> bool" where
  "isDigit c \<longleftrightarrow> 48 \<le> (of_char c :: nat) \<and> (of_char c :: nat) \<le> 57"

definition digitVal :: "char \<Rightarrow> int" where
  "digitVal c = int (of_char c) - 48"

text \<open>
  \<open>strings.ToLower\<close>, \<open>strings.ToUpper\<close> and \<open>strings.EqualFold\<close> on ASCII text: the
  letters \<open>A\<close>..\<open>Z\<close> and \<open>a\<close>..\<open>z\<close> are mapped, every other byte is left as it is.
\<close>

definition lowerChar :: "char \<Rightarrow> char" where
  "lowerChar c = (if 65 \<le> (of_char c :: nat) \<and> (of_char c :: nat) \<le> 90
                  then char_of ((of_char c :: nat) + 32) else c)"

definition upperChar :: "char \<Rightarrow> char" where
  "upperChar c = (if 97 \<le> (of_char c :: nat) \<and> (of_char c :: nat) \<le> 122
                  then char_of ((of_char c :: nat) - 32) else c)"

definition ToLower :: "string \<Rightarrow> string" where
  "ToLower s = map lowerChar s"

definition ToUpper :: "string \<Rightarrow> string" where
  "ToUpper s = map upperChar s"

definition EqualFold :: "string \<Rightarrow> string \<Rightarrow> bool" where
  "EqualFold s t \<longleftrightarrow> ToLower s = ToLower t"

text \<open>\<open>math.Round\<close>: to the nearest integer, halves away from zero.\<close>

definition mathRound :: "real \<Rightarrow> real" where
  "mathRound x = (if x < 0 then - of_int \<lfloor>- x + 1 / 2\<rfloor> else of_int \<lfloor>x + 1 / 2\<rfloor>)"

section \<open>Instants of time\<close>

text \<open>
  A \<open>time.Time\<close> is an instant (seconds since the Unix epoch and nanoseconds within the
  second) together with the offset, in seconds east of UTC, of the zone it is presented in.
  All zones of the program are fixed-offset zones.
\<close>

record GoTime =
  unixSec :: int
  nsec :: int
  zoneOff :: int

definition Hour :: "GoTime \<Rightarrow> int" where
  "Hour t = ((unixSec t + zoneOff t) mod 86400) div 3600"

definition Minute :: "GoTime \<Rightarrow> int" where
  "Minute t = ((unixSec t + zoneOff t) mod 3600) div 60"

definition Before :: "GoTime \<Rightarrow> GoTime \<Rightarrow> bool" where
  "Before t u \<longleftrightarrow> unixSec t < unixSec u \<or> (unixSec t = unixSec u \<and> nsec t < nsec u)"

definition After :: "GoTime \<Rightarrow> GoTime \<Rightarrow> bool" where
  "After t u \<longleftrightarrow> unixSec t > unixSec u \<or> (unixSec t = unixSec u \<and> nsec t > nsec u)"

definition In :: "GoTime \<Rightarrow> int \<Rightarrow> GoTime" where
  "In t off = t\<lparr>zoneOff := off\<rparr>"

subsection \<open>Parsing against a layout\<close>

text \<open>
  The layouts the program passes to \<open>time.Parse\<close> and \<open>time.ParseInLocation\<close>, cut into
  the chunks the library's \<open>nextStdChunk\<close> finds in them. \<open>+07:00\<close>, \<open>+0700\<close> and a \<open>Z\<close>
  standing alone are not zone chunks of a layout: the library reads them as literal text.
\<close>

datatype chunk =
    Lit string
  | LongYear
  | ZeroMonth
  | ZeroDay
  | Hour24
  | ZeroMinute
  | ZeroSecond
  | ISO8601ColonTZ
  | NumColonTZ
  | NumTZ

record pstate =
  p_year :: int
  p_month :: int
  p_day :: int
  p_hour :: int
  p_min :: int
  p_sec :: int
  p_nsec :: int
  p_utc :: bool
  p_zoneOffset :: int

definition pstate0 :: pstate where
  "pstate0 = \<lparr>p_year = 0, p_month = - 1, p_day = - 1, p_hour = 0, p_min = 0, p_sec = 0,
              p_nsec = 0, p_utc = False, p_zoneOffset = - 1\<rparr>"

definition getnum :: "string \<Rightarrow> bool \<Rightarrow> (int \<times> string) option" where
  "getnum s fixed =
     (case s of
        [] \<Rightarrow> None
      | c # r \<Rightarrow>
          if \<not> isDigit c then None
          else (case r of
                  [] \<Rightarrow> if fixed then None else Some (digitVal c, r)
                | d # r' \<Rightarrow>
                    if \<not> isDigit d then (if fixed then None else Some (digitVal c, r))
                    else Some (digitVal c * 10 + digitVal d, r')))"

definition cutspace :: "string \<Rightarrow> string" where
  "cutspace s = dropWhile (\<lambda>c. c = CHR '' '') s"

text \<open>
  \<open>skip (value, prefix)\<close>: the literal text of a layout. A space of the layout stands for
  any run of spaces of the value, an empty run included (\<open>cutspace\<close> of a prefix that starts
  with a space is \<open>cutspace\<close> of its tail).
\<close>

function skip :: "string \<Rightarrow> string \<Rightarrow> string option" where
  "skip v [] = Some v"
| "skip v (p # ps) =
     (if p = CHR '' '' then
        (case v of
           [] \<Rightarrow> skip (cutspace v) (cutspace ps)
         | c # cs \<Rightarrow> if c \<noteq> CHR '' '' then None else skip (cutspace v) (cutspace ps))
      else (case v of
              [] \<Rightarrow> None
            | c # cs \<Rightarrow> if c \<noteq> p then None else skip cs ps))"
  by pat_completeness auto
termination
  by (relation "measure (\<lambda>(v, p). length p)")
     (auto simp: cutspace_def intro: le_imp_less_Suc length_dropWhile_le)

text \<open>The digits of a decimal numeral, most significant first.\<close>

fun digitsVal :: "int \<Rightarrow> string \<Rightarrow> int" where
  "digitsVal acc [] = acc"
| "digitsVal acc (c # cs) = digitsVal (acc * 10 + digitVal c) cs"

text \<open>
  \<open>parseNanoseconds\<close>: the value starts with a period or comma followed by \<open>n - 1\<close> digits;
  at most nine digits are read, and scaled to nanoseconds.
\<close>

definition parseNanoseconds :: "string \<Rightarrow> int" where
  "parseNanoseconds ds = (let ds' = take 9 ds in digitsVal 0 ds' * 10 ^ (9 - length ds'))"

definition parseZone :: "bool \<Rightarrow> string \<Rightarrow> pstate \<Rightarrow> (string \<times> pstate) option" where
  "parseZone colon v st =
     (let n = (if colon then 6 else 5) in
      if length v < n then None
      else if colon \<and> v ! 3 \<noteq> CHR '':'' then None
      else
        (let sign = v ! 0;
             hour = take 2 (drop 1 v);
             mins = (if colon then take 2 (drop 4 v) else take 2 (drop 3 v))
         in case getnum hour True of
              None \<Rightarrow> None
            | Some (hr, _) \<Rightarrow>
               (case getnum mins True of
                  None \<Rightarrow> None
                | Some (mm, _) \<Rightarrow>
                    if hr > 24 \<or> mm > 60 then None
                    else if sign = CHR ''+'' then
                      Some (drop n v, st\<lparr>p_zoneOffset := (hr * 60 + mm) * 60\<rparr>)
                    else if sign = CHR ''-'' then
                      Some (drop n v, st\<lparr>p_zoneOffset := - ((hr * 60 + mm) * 60)\<rparr>)
                    else None)))"

definition parseChunk :: "chunk \<Rightarrow> string \<Rightarrow> pstate \<Rightarrow> (string \<times> pstate) option" where
  "parseChunk ch v st =
     (case ch of
        Lit p \<Rightarrow> (case skip v p of None \<Rightarrow> None | Some v' \<Rightarrow> Some (v', st))
      | LongYear \<Rightarrow>
          if length v < 4 \<or> \<not> list_all isDigit (take 4 v) then None
          else Some (drop 4 v, st\<lparr>p_year := digitsVal 0 (take 4 v)\<rparr>)
      | ZeroMonth \<Rightarrow>
          (case getnum v True of
             None \<Rightarrow> None
           | Some (m, v') \<Rightarrow> if m \<le> 0 \<or> 12 < m then None else Some (v', st\<lparr>p_month := m\<rparr>))
      | ZeroDay \<Rightarrow>
          (case getnum v True of
             None \<Rightarrow> None
           | Some (d, v') \<Rightarrow> Some (v', st\<lparr>p_day := d\<rparr>))
      | Hour24 \<Rightarrow>
          (case getnum v False of
             None \<Rightarrow> None
           | Some (h, v') \<Rightarrow> if h < 0 \<or> 24 \<le> h then None else Some (v', st\<lparr>p_hour := h\<rparr>))
      | ZeroMinute \<Rightarrow>
          (case getnum v True of
             None \<Rightarrow> None
           | Some (m, v') \<Rightarrow> if m < 0 \<or> 60 \<le> m then None else Some (v', st\<lparr>p_min := m\<rparr>))
      | ZeroSecond \<Rightarrow>
          (case getnum v True of
             None \<Rightarrow> None
           | Some (s, v') \<Rightarrow>
               if s < 0 \<or> 60 \<le> s then None
               else (case v' of
                       c # d # r \<Rightarrow>
                         if (c = CHR ''.'' \<or> c = CHR '','') \<and> isDigit d then
                           (let ds = takeWhile isDigit (d # r)
                            in Some (dropWhile isDigit (d # r),
                                     st\<lparr>p_sec := s, p_nsec := parseNanoseconds ds\<rparr>))
                         else Some (v', st\<lparr>p_sec := s\<rparr>)
                     | _ \<Rightarrow> Some (v', st\<lparr>p_sec := s\<rparr>)))
      | ISO8601ColonTZ \<Rightarrow>
          (case v of
             c # r \<Rightarrow> if c = CHR ''Z'' then Some (r, st\<lparr>p_utc := True\<rparr>) else parseZone True v st
           | [] \<Rightarrow> parseZone True v st)
      | NumColonTZ \<Rightarrow> parseZone True v st
      | NumTZ \<Rightarrow> parseZone False v st)"

fun parseChunks :: "chunk list \<Rightarrow> string \<Rightarrow> pstate \<Rightarrow> pstate option" where
  "parseChunks [] v st = (if v = [] then Some st else None)"
| "parseChunks (ch # chs) v st =
     (case parseChunk ch v st of
        None \<Rightarrow> None
      | Some (v', st') \<Rightarrow> parseChunks chs v' st')"

definition isLeap :: "int \<Rightarrow> bool" where
  "isLeap y \<longleftrightarrow> y mod 4 = 0 \<and> (y mod 100 \<noteq> 0 \<or> y mod 400 = 0)"

definition daysIn :: "int \<Rightarrow> int \<Rightarrow> int" where
  "daysIn m y =
     (if m = 2 then (if isLeap y then 29 else 28)
      else if m = 4 \<or> m = 6 \<or> m = 9 \<or> m = 11 then 30 else 31)"

text \<open>
  The number of days from 1970-01-01 to a date of the proleptic Gregorian calendar: the
  instant \<open>time.Date\<close> denotes for in-range fields.
\<close>

definition daysFromCivil :: "int \<Rightarrow> int \<Rightarrow> int \<Rightarrow> int" where
  "daysFromCivil y m d =
     (let y' = (if m \<le> 2 then y - 1 else y);
          era = y' div 400;
          yoe = y' mod 400;
          mp = (if m > 2 then m - 3 else m + 9);
          doy = (153 * mp + 2) div 5 + d - 1;
          doe = yoe * 365 + yoe div 4 - yoe div 100 + doy
      in era * 146097 + doe - 719468)"

text \<open>
  \<open>time.ParseInLocation (layout, value, loc)\<close> for a fixed-offset location \<open>loc\<close>;
  \<open>time.Parse\<close> is the same with UTC. A value that carries its own offset is placed in
  the zone of that offset; otherwise the wall-clock fields are read in \<open>loc\<close>.
\<close>

definition ParseInLocation :: "chunk list \<Rightarrow> string \<Rightarrow> int \<Rightarrow> GoTime option" where
  "ParseInLocation layout v loc =
     (case parseChunks layout v pstate0 of
        None \<Rightarrow> None
      | Some st \<Rightarrow>
          (let month = (if p_month st < 0 then 1 else p_month st);
               day = (if p_day st < 0 then 1 else p_day st)
           in if day < 1 \<or> day > daysIn month (p_year st) then None
              else
                (let wall = daysFromCivil (p_year st) month day * 86400
                            + p_hour st * 3600 + p_min st * 60 + p_sec st;
                     off = (if p_utc st then 0
                            else if p_zoneOffset st \<noteq> - 1 then p_zoneOffset st
                            else loc)
                 in Some \<lparr>unixSec = wall - off, nsec = p_nsec st, zoneOff = off\<rparr>)))"

definition Parse :: "chunk list \<Rightarrow> string \<Rightarrow> GoTime option" where
  "Parse layout v = ParseInLocation layout v 0"

section \<open>Package timezone\<close>

datatype go_error =
    ParseError string
  | DeadlineExceeded
  | Canceled
  | ErrAirAsiaTemporaryFailure
  | OtherError string

definition WIB :: int where "WIB = 7 * 60 * 60"
definition WITA :: int where "WITA = 8 * 60 * 60"
definition WIT :: int where "WIT = 9 * 60 * 60"

definition airportTimezones :: "(string \<times> string) list" where
  "airportTimezones =
     [(''CGK'', ''WIB''), (''HLP'', ''WIB''), (''BDO'', ''WIB''), (''SUB'', ''WIB''),
      (''SRG'', ''WIB''), (''JOG'', ''WIB''), (''SOC'', ''WIB''), (''PLM'', ''WIB''),
      (''PNK'', ''WIB''), (''BTH'', ''WIB''), (''PKU'', ''WIB''), (''PDG'', ''WIB''),
      (''KNO'', ''WIB''), (''BTJ'', ''WIB''), (''TNJ'', ''WIB''),
      (''DPS'', ''WITA''), (''LOP'', ''WITA''), (''UPG'', ''WITA''), (''BPN'', ''WITA''),
      (''MDC'', ''WITA''), (''KDI'', ''WITA''), (''PLW'', ''WITA''), (''TRK'', ''WITA''),
      (''DJJ'', ''WIT''), (''TIM'', ''WIT''), (''BIK'', ''WIT''), (''MKQ'', ''WIT''),
      (''SOQ'', ''WIT''), (''AMQ'', ''WIT'')]"

definition GetTimezoneByAirport :: "string \<Rightarrow> string" where
  "GetTimezoneByAirport code =
     (case map_of airportTimezones (ToUpper code) of Some tz \<Rightarrow> tz | None \<Rightarrow> ''WIB'')"

definition GetLocationByAirport :: "string \<Rightarrow> int" where
  "GetLocationByAirport code =
     (let tz = GetTimezoneByAirport code
      in if tz = ''WITA'' then WITA else if tz = ''WIT'' then WIT else WIB)"

text \<open>
  \<open>time.LoadLocation\<close> reads the zone database of the host; it is a parameter \<open>tzdb\<close> of
  the model, from a zone name to the offset of that zone, when the host knows the name.
\<close>

definition GetLocationByName :: "(string \<Rightarrow> int option) \<Rightarrow> string \<Rightarrow> int" where
  "GetLocationByName tzdb name =
     (let n = ToUpper name
      in if n = ''WITA'' \<or> n = ''UTC+8'' then WITA
         else if n = ''WIT'' \<or> n = ''UTC+9'' then WIT
         else if n = ''WIB'' \<or> n = ''UTC+7'' then WIB
         else (case tzdb name of Some loc \<Rightarrow> loc | None \<Rightarrow> WIB))"

definition dateChunks :: "chunk list" where
  "dateChunks = [LongYear, Lit ''-'', ZeroMonth, Lit ''-'', ZeroDay]"

definition hmChunks :: "chunk list" where
  "hmChunks = [Hour24, Lit '':'', ZeroMinute]"

definition hmsChunks :: "chunk list" where
  "hmsChunks = hmChunks @ [Lit '':'', ZeroSecond]"

text \<open>The eight layouts of the first loop of \<open>ParseTimeWithOffset\<close>, in its order.\<close>

definition formats :: "chunk list list" where
  "formats =
     [dateChunks @ [Lit ''T''] @ hmsChunks @ [ISO8601ColonTZ],
      dateChunks @ [Lit ''T''] @ hmsChunks @ [NumColonTZ],
      dateChunks @ [Lit ''T''] @ hmsChunks @ [Lit ''+07:00''],
      dateChunks @ [Lit ''T''] @ hmsChunks @ [NumTZ],
      dateChunks @ [Lit ''T''] @ hmsChunks @ [Lit ''+0700''],
      dateChunks @ [Lit ''T''] @ hmsChunks @ [Lit ''Z''],
      dateChunks @ [Lit ''T''] @ hmsChunks,
      dateChunks @ [Lit '' ''] @ hmsChunks]"

text \<open>The four layouts of its second loop, tried in the zone of the hint.\<close>

definition simpleFormats :: "chunk list list" where
  "simpleFormats =
     [dateChunks @ [Lit ''T''] @ hmsChunks,
      dateChunks @ [Lit '' ''] @ hmsChunks,
      dateChunks @ [Lit ''T''] @ hmChunks,
      dateChunks @ [Lit '' ''] @ hmChunks]"

text \<open>A loop over layouts that returns at the first one that parses.\<close>

fun firstParse :: "chunk list list \<Rightarrow> string \<Rightarrow> int \<Rightarrow> GoTime option" where
  "firstParse [] v loc = None"
| "firstParse (l # ls) v loc =
     (case ParseInLocation l v loc of Some t \<Rightarrow> Some t | None \<Rightarrow> firstParse ls v loc)"

definition ParseTimeWithOffset ::
  "(string \<Rightarrow> int option) \<Rightarrow> string \<Rightarrow> string \<Rightarrow> go_error + GoTime" where
  "ParseTimeWithOffset tzdb timeStr tzName =
     (case firstParse formats timeStr 0 of
        Some t \<Rightarrow> Inr t
      | None \<Rightarrow>
          if tzName \<noteq> [] then
            (case firstParse simpleFormats timeStr (GetLocationByName tzdb tzName) of
               Some t \<Rightarrow> Inr t
             | None \<Rightarrow> Inl (ParseError timeStr))
          else Inl (ParseError timeStr))"

definition ConvertToTimezone :: "GoTime \<Rightarrow> string \<Rightarrow> GoTime" where
  "ConvertToTimezone t airportCode = In t (GetLocationByAirport airportCode)"

section \<open>Package models\<close>

text \<open>
  The canonical flight. \<open>Price.Formatted\<close> (the display string of \<open>currency.FormatIDR\<close>)
  and \<open>Baggage\<close> (read by the adapters' baggage patterns) are presentation fields that no
  stage of the pipeline reads; the record leaves them out.
\<close>

record Airline =
  Code :: string
  Name :: string

record Location =
  Airport :: string
  City :: string
  Terminal :: "string option"
  Time :: GoTime
  Timezone :: string

record Duration =
  Hours :: int
  Minutes :: int
  TotalMinutes :: int

record Layover =
  LayoverAirport :: string
  LayoverCity :: string
  LayoverDuration :: int

record Price =
  Amount :: real
  Currency :: string

record Flight =
  ID :: string
  Provider :: string
  FlightAirline :: Airline
  FlightNumber :: string
  Departure :: Location
  Arrival :: Location
  FlightDuration :: Duration
  Stops :: int
  Layovers :: "Layover list"
  FlightPrice :: Price
  AvailableSeats :: int
  CabinClass :: string
  Aircraft :: "string option"
  Amenities :: "string list"
  BestValueScore :: real

record SearchFilters =
  PriceMin :: "real option"
  PriceMax :: "real option"
  MaxStops :: "int option"
  Airlines :: "string list"
  DepartureTimeMin :: "string option"
  DepartureTimeMax :: "string option"
  ArrivalTimeMin :: "string option"
  ArrivalTimeMax :: "string option"
  MaxDuration :: "int option"

record SearchRequest =
  Origin :: string
  Destination :: string
  DepartureDate :: string
  ReturnDate :: "string option"
  ReqPassengers :: int
  ReqCabinClass :: string
  Filters :: "SearchFilters option"
  SortBy :: string
  SortOrder :: string

section \<open>Package filter\<close>

definition parseTimeOfDay :: "string \<Rightarrow> int option" where
  "parseTimeOfDay s =
     (case Parse hmChunks s of
        None \<Rightarrow> None
      | Some t \<Rightarrow> Some (Hour t * 60 + Minute t))"

text \<open>The departure-time and arrival-time windows: a bound that does not parse is skipped.\<close>

definition belowMin :: "string option \<Rightarrow> GoTime \<Rightarrow> bool" where
  "belowMin bound t =
     (case bound of
        None \<Rightarrow> False
      | Some s \<Rightarrow>
          (case parseTimeOfDay s of
             None \<Rightarrow> False
           | Some minTime \<Rightarrow> Hour t * 60 + Minute t < minTime))"

definition aboveMax :: "string option \<Rightarrow> GoTime \<Rightarrow> bool" where
  "aboveMax bound t =
     (case bound of
        None \<Rightarrow> False
      | Some s \<Rightarrow>
          (case parseTimeOfDay s of
             None \<Rightarrow> False
           | Some maxTime \<Rightarrow> Hour t * 60 + Minute t > maxTime))"

definition matchesFilters :: "Flight \<Rightarrow> SearchFilters \<Rightarrow> bool" where
  "matchesFilters f filters =
     (if (case PriceMin filters of None \<Rightarrow> False | Some m \<Rightarrow> Amount (FlightPrice f) < m)
      then False
      else if (case PriceMax filters of None \<Rightarrow> False | Some m \<Rightarrow> Amount (FlightPrice f) > m)
      then False
      else if (case MaxStops filters of None \<Rightarrow> False | Some m \<Rightarrow> Stops f > m)
      then False
      else if length (Airlines filters) > 0
              \<and> \<not> list_ex (\<lambda>airline. EqualFold (Code (FlightAirline f)) airline) (Airlines filters)
      then False
      else if belowMin (DepartureTimeMin filters) (Time (Departure f)) then False
      else if aboveMax (DepartureTimeMax filters) (Time (Departure f)) then False
      else if belowMin (ArrivalTimeMin filters) (Time (Arrival f)) then False
      else if aboveMax (ArrivalTimeMax filters) (Time (Arrival f)) then False
      else if (case MaxDuration filters of
                 None \<Rightarrow> False
               | Some m \<Rightarrow> TotalMinutes (FlightDuration f) > m)
      then False
      else True)"

text \<open>The loop of \<open>applyFilters\<close>: \<open>result\<close> grows by \<open>append\<close>.\<close>

fun filterLoop :: "SearchFilters \<Rightarrow> Flight list \<Rightarrow> Flight list \<Rightarrow> Flight list" where
  "filterLoop filters result [] = result"
| "filterLoop filters result (f # fs) =
     (if matchesFilters f filters then filterLoop filters (result @ [f]) fs
      else filterLoop filters result fs)"

definition applyFilters :: "Flight list \<Rightarrow> SearchFilters option \<Rightarrow> Flight list" where
  "applyFilters flights filters =
     (case filters of
        None \<Rightarrow> flights
      | Some fl \<Rightarrow> filterLoop fl [] flights)"

section \<open>Package ranking\<close>

definition PriceWeight :: real where "PriceWeight = 0.5"
definition DurationWeight :: real where "DurationWeight = 0.3"
definition StopsWeight :: real where "StopsWeight = 0.2"

definition CalculateBestValue :: "Flight \<Rightarrow> real \<Rightarrow> real \<Rightarrow> real" where
  "CalculateBestValue flight maxPrice maxDuration =
     (let priceScore = (if maxPrice > 0 then (Amount (FlightPrice flight) / maxPrice) * 100 else 0);
          durationScore =
            (if maxDuration > 0
             then (real_of_int (TotalMinutes (FlightDuration flight)) / maxDuration) * 100 else 0);
          stopsScore = real_of_int (Stops flight) * 15;
          score = (priceScore * PriceWeight) + (durationScore * DurationWeight)
                  + (stopsScore * StopsWeight)
      in mathRound (score * 100) / 100)"

fun maxPriceLoop :: "real \<Rightarrow> Flight list \<Rightarrow> real" where
  "maxPriceLoop maxPrice [] = maxPrice"
| "maxPriceLoop maxPrice (f # fs) =
     (if Amount (FlightPrice f) > maxPrice then maxPriceLoop (Amount (FlightPrice f)) fs
      else maxPriceLoop maxPrice fs)"

definition findMaxPrice :: "Flight list \<Rightarrow> real" where
  "findMaxPrice flights = maxPriceLoop 0 flights"

fun maxDurationLoop :: "real \<Rightarrow> Flight list \<Rightarrow> real" where
  "maxDurationLoop maxDuration [] = maxDuration"
| "maxDurationLoop maxDuration (f # fs) =
     (let dur = real_of_int (TotalMinutes (FlightDuration f))
      in if dur > maxDuration then maxDurationLoop dur fs
         else maxDurationLoop maxDuration fs)"

definition findMaxDuration :: "Flight list \<Rightarrow> real" where
  "findMaxDuration flights = maxDurationLoop 0 flights"

definition CalculateScores :: "Flight list \<Rightarrow> Flight list" where
  "CalculateScores flights =
     (if length flights = 0 then flights
      else
        (let maxPrice = findMaxPrice flights;
             maxDuration = findMaxDuration flights
         in map (\<lambda>f. f\<lparr>BestValueScore := CalculateBestValue f maxPrice maxDuration\<rparr>) flights))"

section \<open>Sorting and the pipeline\<close>

text \<open>
  \<open>sort.Slice\<close> belongs to Go's standard library. It is a parameter \<open>srt\<close> of the model: a
  function from the \<open>less\<close> closure and the slice to the sorted slice. The library
  documents that the result is the slice's elements ordered by \<open>less\<close>, and that the sort
  is not guaranteed to be stable; \<open>sortSliceContract\<close> is that contract: a permutation of
  the slice, ordered when \<open>less\<close> is a strict weak ordering.
\<close>

definition strictWeakOrder :: "('a \<Rightarrow> 'a \<Rightarrow> bool) \<Rightarrow> bool" where
  "strictWeakOrder lt \<longleftrightarrow>
     (\<forall>a. \<not> lt a a)
     \<and> (\<forall>a b c. lt a b \<and> lt b c \<longrightarrow> lt a c)
     \<and> (\<forall>a b c. \<not> lt a b \<and> \<not> lt b c \<longrightarrow> \<not> lt a c)"

definition sortSliceContract ::
  "(('a \<Rightarrow> 'a \<Rightarrow> bool) \<Rightarrow> 'a list \<Rightarrow> 'a list) \<Rightarrow> bool" where
  "sortSliceContract srt \<longleftrightarrow>
     (\<forall>lt xs. mset (srt lt xs) = mset xs
        \<and> (strictWeakOrder lt \<longrightarrow> sorted_wrt (\<lambda>a b. \<not> lt b a) (srt lt xs)))"

definition sortLess :: "string \<Rightarrow> string \<Rightarrow> Flight \<Rightarrow> Flight \<Rightarrow> bool" where
  "sortLess sortBy sortOrder =
     (let ascending = (ToLower sortOrder \<noteq> ''desc'');
          k = ToLower sortBy
      in if k = ''price'' then
           (\<lambda>a b. if ascending then Amount (FlightPrice a) < Amount (FlightPrice b)
                   else Amount (FlightPrice a) > Amount (FlightPrice b))
         else if k = ''duration'' then
           (\<lambda>a b. if ascending
                   then TotalMinutes (FlightDuration a) < TotalMinutes (FlightDuration b)
                   else TotalMinutes (FlightDuration a) > TotalMinutes (FlightDuration b))
         else if k = ''departure'' then
           (\<lambda>a b. if ascending then Before (Time (Departure a)) (Time (Departure b))
                   else After (Time (Departure a)) (Time (Departure b)))
         else if k = ''arrival'' then
           (\<lambda>a b. if ascending then Before (Time (Arrival a)) (Time (Arrival b))
                   else After (Time (Arrival a)) (Time (Arrival b)))
         else if k = ''best_value'' then
           (\<lambda>a b. if ascending then BestValueScore a < BestValueScore b
                   else BestValueScore a > BestValueScore b)
         else if k = ''stops'' then
           (\<lambda>a b. if ascending then Stops a < Stops b else Stops a > Stops b)
         else (\<lambda>a b. Amount (FlightPrice a) < Amount (FlightPrice b)))"

definition applySort ::
  "((Flight \<Rightarrow> Flight \<Rightarrow> bool) \<Rightarrow> Flight list \<Rightarrow> Flight list)
   \<Rightarrow> Flight list \<Rightarrow> string \<Rightarrow> string \<Rightarrow> Flight list" where
  "applySort srt flights sortBy sortOrder =
     (if length flights = 0 then flights
      else srt (sortLess sortBy sortOrder) flights)"

definition Apply ::
  "((Flight \<Rightarrow> Flight \<Rightarrow> bool) \<Rightarrow> Flight list \<Rightarrow> Flight list)
   \<Rightarrow> Flight list \<Rightarrow> SearchFilters option \<Rightarrow> string \<Rightarrow> string \<Rightarrow> Flight list" where
  "Apply srt flights filters sortBy sortOrder =
     (let filtered = applyFilters flights filters;
          filtered' = (if sortBy = ''best_value'' then CalculateScores filtered else filtered)
      in applySort srt filtered' sortBy sortOrder)"

text \<open>
  One function that meets the contract of \<open>sort.Slice\<close>: an insertion sort that places each
  element behind the elements it ties with. It is used to run the pipeline on concrete
  flights.
\<close>

fun insertBehind :: "('a \<Rightarrow> 'a \<Rightarrow> bool) \<Rightarrow> 'a \<Rightarrow> 'a list \<Rightarrow> 'a list" where
  "insertBehind lt x [] = [x]"
| "insertBehind lt x (y # ys) = (if lt x y then x # y # ys else y # insertBehind lt x ys)"

definition tieReversingSort :: "('a \<Rightarrow> 'a \<Rightarrow> bool) \<Rightarrow> 'a list \<Rightarrow> 'a list" where
  "tieReversingSort lt xs = foldr (insertBehind lt) xs []"

section \<open>Package providers\<close>

text \<open>
  The adapters' records of the providers' data, and \<open>normalize\<close> of each adapter. The
  provider fields that feed only the baggage of the canonical flight are left out with it.
  Go's \<open>/\<close> and \<open>%\<close> on \<open>int\<close> truncate towards zero: \<open>sdiv\<close> and \<open>smod\<close>.
\<close>

definition wrap64 :: "int \<Rightarrow> int" where
  "wrap64 x = (x + 2 ^ 63) mod 2 ^ 64 - 2 ^ 63"

text \<open>
  \<open>strconv.Atoi\<close> on a string of decimal digits: a value beyond the largest \<open>int\<close> is
  returned as the largest \<open>int\<close> (with an error the callers here drop).
\<close>

definition Atoi :: "string \<Rightarrow> int" where
  "Atoi ds = min (digitsVal 0 ds) (2 ^ 63 - 1)"

text \<open>The conversion \<open>int (x)\<close> of a \<open>float64\<close> within the range of \<open>int\<close>: truncation.\<close>

definition goInt :: "real \<Rightarrow> int" where
  "goInt x = (if x < 0 then - \<lfloor>- x\<rfloor> else \<lfloor>x\<rfloor>)"

subsection \<open>Garuda\<close>

record garudaAirline =
  garuda_Code :: string
  garuda_Name :: string

record garudaLocation =
  garuda_Airport :: string
  garuda_City :: string
  garuda_Terminal :: string
  garuda_Time :: string

record garudaLayover =
  garuda_LayoverAirport :: string
  garuda_LayoverCity :: string
  garuda_LayoverDuration :: int

record garudaPrice =
  garuda_Amount :: real
  garuda_Currency :: string

record garudaFlight =
  garuda_FlightID :: string
  garuda_Airline :: garudaAirline
  garuda_FlightNumber :: string
  garuda_Departure :: garudaLocation
  garuda_Arrival :: garudaLocation
  garuda_Duration :: int
  garuda_Stops :: int
  garuda_Layovers :: "garudaLayover list"
  garuda_Price :: garudaPrice
  garuda_Seats :: int
  garuda_CabinClass :: string
  garuda_Aircraft :: string
  garuda_Amenities :: "string list"

definition strPtr :: "string \<Rightarrow> string option" where
  "strPtr t = (if t \<noteq> [] then Some t else None)"

definition garuda_normalize :: "(string \<Rightarrow> int option) \<Rightarrow> garudaFlight \<Rightarrow> go_error + Flight" where
  "garuda_normalize tzdb f =
     (case ParseTimeWithOffset tzdb (garuda_Time (garuda_Departure f)) [] of
        Inl err \<Rightarrow> Inl err
      | Inr depTime \<Rightarrow>
          (case ParseTimeWithOffset tzdb (garuda_Time (garuda_Arrival f)) [] of
             Inl err \<Rightarrow> Inl err
           | Inr arrTime \<Rightarrow>
               (let depTime' = ConvertToTimezone depTime (garuda_Airport (garuda_Departure f));
                    arrTime' = ConvertToTimezone arrTime (garuda_Airport (garuda_Arrival f));
                    layovers = map (\<lambda>l. \<lparr>LayoverAirport = garuda_LayoverAirport l,
                                           LayoverCity = garuda_LayoverCity l,
                                           LayoverDuration = garuda_LayoverDuration l\<rparr>)
                                   (garuda_Layovers f);
                    hours = garuda_Duration f sdiv 60;
                    mins = garuda_Duration f smod 60
                in Inr \<lparr>ID = garuda_FlightID f,
                        Provider = ''garuda'',
                        FlightAirline = \<lparr>Code = garuda_Code (garuda_Airline f),
                                         Name = garuda_Name (garuda_Airline f)\<rparr>,
                        FlightNumber = garuda_FlightNumber f,
                        Departure = \<lparr>Airport = garuda_Airport (garuda_Departure f),
                                     City = garuda_City (garuda_Departure f),
                                     Terminal = strPtr (garuda_Terminal (garuda_Departure f)),
                                     Time = depTime',
                                     Timezone = GetTimezoneByAirport (garuda_Airport (garuda_Departure f))\<rparr>,
                        Arrival = \<lparr>Airport = garuda_Airport (garuda_Arrival f),
                                   City = garuda_City (garuda_Arrival f),
                                   Terminal = strPtr (garuda_Terminal (garuda_Arrival f)),
                                   Time = arrTime',
                                   Timezone = GetTimezoneByAirport (garuda_Airport (garuda_Arrival f))\<rparr>,
                        FlightDuration = \<lparr>Hours = hours, Minutes = mins,
                                          TotalMinutes = garuda_Duration f\<rparr>,
                        Stops = garuda_Stops f,
                        Layovers = layovers,
                        FlightPrice = \<lparr>Amount = garuda_Amount (garuda_Price f),
                                       Currency = garuda_Currency (garuda_Price f)\<rparr>,
                        AvailableSeats = garuda_Seats f,
                        CabinClass = garuda_CabinClass f,
                        Aircraft = strPtr (garuda_Aircraft f),
                        Amenities = garuda_Amenities f,
                        BestValueScore = 0\<rparr>)))"

subsection \<open>Lion Air\<close>

record lionCarrier =
  lion_IATA :: string
  lion_FullName :: string

record lionAirport =
  lion_Code :: string
  lion_Name :: string
  lion_Gate :: string

record lionSchedule =
  lion_Departure :: string
  lion_Arrival :: string
  lion_Timezone :: string

record lionStopover =
  lion_AirportCode :: string
  lion_CityName :: string
  lion_WaitTime :: int

record lionPricing =
  lion_Total :: real
  lion_Currency :: string

record lionFlight =
  lion_ID :: string
  lion_Carrier :: lionCarrier
  lion_FlightCode :: string
  lion_Origin :: lionAirport
  lion_Destination :: lionAirport
  lion_Schedule :: lionSchedule
  lion_FlightTime :: int
  lion_IsDirect :: bool
  lion_StopCount :: int
  lion_Stopovers :: "lionStopover list"
  lion_Pricing :: lionPricing
  lion_Seats :: int
  lion_Class :: string
  lion_PlaneType :: string
  lion_Services :: "string list"

definition lion_normalize :: "(string \<Rightarrow> int option) \<Rightarrow> lionFlight \<Rightarrow> go_error + Flight" where
  "lion_normalize tzdb f =
     (case ParseTimeWithOffset tzdb (lion_Departure (lion_Schedule f)) (lion_Timezone (lion_Schedule f)) of
        Inl err \<Rightarrow> Inl err
      | Inr depTime \<Rightarrow>
          (case ParseTimeWithOffset tzdb (lion_Arrival (lion_Schedule f)) (lion_Timezone (lion_Schedule f)) of
             Inl err \<Rightarrow> Inl err
           | Inr arrTime \<Rightarrow>
               (let arrTime' = ConvertToTimezone arrTime (lion_Code (lion_Destination f));
                    stops = (if lion_IsDirect f then 0 else lion_StopCount f);
                    layovers = map (\<lambda>s. \<lparr>LayoverAirport = lion_AirportCode s,
                                           LayoverCity = lion_CityName s,
                                           LayoverDuration = lion_WaitTime s\<rparr>)
                                   (lion_Stopovers f);
                    hours = lion_FlightTime f sdiv 60;
                    mins = lion_FlightTime f smod 60
                in Inr \<lparr>ID = lion_ID f,
                        Provider = ''lionair'',
                        FlightAirline = \<lparr>Code = lion_IATA (lion_Carrier f),
                                         Name = lion_FullName (lion_Carrier f)\<rparr>,
                        FlightNumber = lion_FlightCode f,
                        Departure = \<lparr>Airport = lion_Code (lion_Origin f),
                                     City = lion_Name (lion_Origin f),
                                     Terminal = strPtr (lion_Gate (lion_Origin f)),
                                     Time = depTime,
                                     Timezone = GetTimezoneByAirport (lion_Code (lion_Origin f))\<rparr>,
                        Arrival = \<lparr>Airport = lion_Code (lion_Destination f),
                                   City = lion_Name (lion_Destination f),
                                   Terminal = strPtr (lion_Gate (lion_Destination f)),
                                   Time = arrTime',
                                   Timezone = GetTimezoneByAirport (lion_Code (lion_Destination f))\<rparr>,
                        FlightDuration = \<lparr>Hours = hours, Minutes = mins,
                                          TotalMinutes = lion_FlightTime f\<rparr>,
                        Stops = stops,
                        Layovers = layovers,
                        FlightPrice = \<lparr>Amount = lion_Total (lion_Pricing f),
                                       Currency = lion_Currency (lion_Pricing f)\<rparr>,
                        AvailableSeats = lion_Seats f,
                        CabinClass = lion_Class f,
                        Aircraft = strPtr (lion_PlaneType f),
                        Amenities = lion_Services f,
                        BestValueScore = 0\<rparr>)))"

subsection \<open>Batik Air\<close>

record batikCarrier =
  batik_CarrierCode :: string
  batik_CarrierName :: string

record batikLocationInfo =
  batik_DepAirportCode :: string
  batik_DepCityName :: string
  batik_DepTerminalNo :: string
  batik_DepartureTime :: string

record batikArrivalInfo =
  batik_ArrAirportCode :: string
  batik_ArrCityName :: string
  batik_ArrTerminalNo :: string
  batik_ArrivalTime :: string

record batikConnection =
  batik_Airport :: string
  batik_City :: string
  batik_LayoverMinutes :: int

record batikFare =
  batik_TotalPrice :: real
  batik_CurrencyCode :: string

record batikFlight =
  batik_FlightID :: string
  batik_OperatingCarrier :: batikCarrier
  batik_FlightNo :: string
  batik_DepartureInfo :: batikLocationInfo
  batik_ArrivalInfo :: batikArrivalInfo
  batik_TravelTime :: string
  batik_NumberOfStops :: int
  batik_ConnectionPoints :: "batikConnection list"
  batik_Fare :: batikFare
  batik_SeatsAvailable :: int
  batik_CabinType :: string
  batik_AircraftType :: string
  batik_IncludedServices :: "string list"

text \<open>
  \<open>parseTravelTime\<close> matches the pattern \<open>(?:(\d+)h)?\s*(?:(\d+)m)?\<close>, every part of which
  may be empty, so the leftmost match starts at the first byte: a run of digits followed by
  \<open>h\<close> if there is one, then white space, then a run of digits followed by \<open>m\<close> if there
  is one.
\<close>

definition isSpace :: "char \<Rightarrow> bool" where
  "isSpace c \<longleftrightarrow> c = CHR '' '' \<or> (9 \<le> (of_char c :: nat) \<and> (of_char c :: nat) \<le> 10)
                 \<or> (12 \<le> (of_char c :: nat) \<and> (of_char c :: nat) \<le> 13)"

definition digitsThen :: "char \<Rightarrow> string \<Rightarrow> (string \<times> string) option" where
  "digitsThen unit s =
     (let ds = takeWhile isDigit s; r = dropWhile isDigit s
      in case r of
           [] \<Rightarrow> None
         | c # r' \<Rightarrow> if ds \<noteq> [] \<and> c = unit then Some (ds, r') else None)"

definition parseTravelTime :: "string \<Rightarrow> int" where
  "parseTravelTime s =
     (let (hours, r1) = (case digitsThen (CHR ''h'') s of
                           Some (ds, r) \<Rightarrow> (Atoi ds, r)
                         | None \<Rightarrow> (0, s));
          r2 = dropWhile isSpace r1;
          mins = (case digitsThen (CHR ''m'') r2 of
                    Some (ds, r) \<Rightarrow> Atoi ds
                  | None \<Rightarrow> 0)
      in wrap64 (wrap64 (hours * 60) + mins))"

definition batik_normalize :: "(string \<Rightarrow> int option) \<Rightarrow> batikFlight \<Rightarrow> go_error + Flight" where
  "batik_normalize tzdb f =
     (case ParseTimeWithOffset tzdb (batik_DepartureTime (batik_DepartureInfo f)) [] of
        Inl err \<Rightarrow> Inl err
      | Inr depTime \<Rightarrow>
          (case ParseTimeWithOffset tzdb (batik_ArrivalTime (batik_ArrivalInfo f)) [] of
             Inl err \<Rightarrow> Inl err
           | Inr arrTime \<Rightarrow>
               (let depTime' = ConvertToTimezone depTime (batik_DepAirportCode (batik_DepartureInfo f));
                    arrTime' = ConvertToTimezone arrTime (batik_ArrAirportCode (batik_ArrivalInfo f));
                    totalMinutes = parseTravelTime (batik_TravelTime f);
                    hours = totalMinutes sdiv 60;
                    mins = totalMinutes smod 60;
                    layovers = map (\<lambda>c. \<lparr>LayoverAirport = batik_Airport c,
                                           LayoverCity = batik_City c,
                                           LayoverDuration = batik_LayoverMinutes c\<rparr>)
                                   (batik_ConnectionPoints f)
                in Inr \<lparr>ID = batik_FlightID f,
                        Provider = ''batikair'',
                        FlightAirline = \<lparr>Code = batik_CarrierCode (batik_OperatingCarrier f),
                                         Name = batik_CarrierName (batik_OperatingCarrier f)\<rparr>,
                        FlightNumber = batik_FlightNo f,
                        Departure = \<lparr>Airport = batik_DepAirportCode (batik_DepartureInfo f),
                                     City = batik_DepCityName (batik_DepartureInfo f),
                                     Terminal = strPtr (batik_DepTerminalNo (batik_DepartureInfo f)),
                                     Time = depTime',
                                     Timezone = GetTimezoneByAirport
                                                  (batik_DepAirportCode (batik_DepartureInfo f))\<rparr>,
                        Arrival = \<lparr>Airport = batik_ArrAirportCode (batik_ArrivalInfo f),
                                   City = batik_ArrCityName (batik_ArrivalInfo f),
                                   Terminal = strPtr (batik_ArrTerminalNo (batik_ArrivalInfo f)),
                                   Time = arrTime',
                                   Timezone = GetTimezoneByAirport
                                                (batik_ArrAirportCode (batik_ArrivalInfo f))\<rparr>,
                        FlightDuration = \<lparr>Hours = hours, Minutes = mins,
                                          TotalMinutes = totalMinutes\<rparr>,
                        Stops = batik_NumberOfStops f,
                        Layovers = layovers,
                        FlightPrice = \<lparr>Amount = batik_TotalPrice (batik_Fare f),
                                       Currency = batik_CurrencyCode (batik_Fare f)\<rparr>,
                        AvailableSeats = batik_SeatsAvailable f,
                        CabinClass = batik_CabinType f,
                        Aircraft = strPtr (batik_AircraftType f),
                        Amenities = batik_IncludedServices f,
                        BestValueScore = 0\<rparr>)))"

subsection \<open>AirAsia\<close>

record airasiaCarrier =
  airasia_AirlineCode :: string
  airasia_AirlineName :: string

record airasiaLocation =
  airasia_IATA :: string
  airasia_CityName :: string

record airasiaStop =
  airasia_StopAirport :: string
  airasia_StopCity :: string
  airasia_StopDurationMin :: int

record airasiaFlight =
  airasia_OfferID :: string
  airasia_MarketingCarrier :: airasiaCarrier
  airasia_FlightNum :: string
  airasia_From :: airasiaLocation
  airasia_To :: airasiaLocation
  airasia_DepartAt :: string
  airasia_ArriveAt :: string
  airasia_DurationHours :: real
  airasia_DirectFlight :: bool
  airasia_Stops :: "airasiaStop list"
  airasia_PriceIDR :: real
  airasia_SeatsLeft :: int
  airasia_TravelClass :: string
  airasia_Equipment :: string
  airasia_Perks :: "string list"

definition airasia_normalize :: "(string \<Rightarrow> int option) \<Rightarrow> airasiaFlight \<Rightarrow> go_error + Flight" where
  "airasia_normalize tzdb f =
     (case ParseTimeWithOffset tzdb (airasia_DepartAt f) [] of
        Inl err \<Rightarrow> Inl err
      | Inr depTime \<Rightarrow>
          (case ParseTimeWithOffset tzdb (airasia_ArriveAt f) [] of
             Inl err \<Rightarrow> Inl err
           | Inr arrTime \<Rightarrow>
               (let depTime' = ConvertToTimezone depTime (airasia_IATA (airasia_From f));
                    arrTime' = ConvertToTimezone arrTime (airasia_IATA (airasia_To f));
                    totalMinutes = goInt (mathRound (airasia_DurationHours f * 60));
                    hours = totalMinutes sdiv 60;
                    mins = totalMinutes smod 60;
                    stops = (if airasia_DirectFlight f then 0 else int (length (airasia_Stops f)));
                    layovers = map (\<lambda>s. \<lparr>LayoverAirport = airasia_StopAirport s,
                                           LayoverCity = airasia_StopCity s,
                                           LayoverDuration = airasia_StopDurationMin s\<rparr>)
                                   (airasia_Stops f)
                in Inr \<lparr>ID = airasia_OfferID f,
                        Provider = ''airasia'',
                        FlightAirline = \<lparr>Code = airasia_AirlineCode (airasia_MarketingCarrier f),
                                         Name = airasia_AirlineName (airasia_MarketingCarrier f)\<rparr>,
                        FlightNumber = airasia_FlightNum f,
                        Departure = \<lparr>Airport = airasia_IATA (airasia_From f),
                                     City = airasia_CityName (airasia_From f),
                                     Terminal = None,
                                     Time = depTime',
                                     Timezone = GetTimezoneByAirport (airasia_IATA (airasia_From f))\<rparr>,
                        Arrival = \<lparr>Airport = airasia_IATA (airasia_To f),
                                   City = airasia_CityName (airasia_To f),
                                   Terminal = None,
                                   Time = arrTime',
                                   Timezone = GetTimezoneByAirport (airasia_IATA (airasia_To f))\<rparr>,
                        FlightDuration = \<lparr>Hours = hours, Minutes = mins,
                                          TotalMinutes = totalMinutes\<rparr>,
                        Stops = stops,
                        Layovers = layovers,
                        FlightPrice = \<lparr>Amount = airasia_PriceIDR f, Currency = ''IDR''\<rparr>,
                        AvailableSeats = airasia_SeatsLeft f,
                        CabinClass = airasia_TravelClass f,
                        Aircraft = strPtr (airasia_Equipment f),
                        Amenities = airasia_Perks f,
                        BestValueScore = 0\<rparr>)))"

subsection \<open>Any adapter\<close>

datatype providerRecord =
    Garuda garudaFlight
  | LionAir lionFlight
  | BatikAir batikFlight
  | AirAsia airasiaFlight

definition normalize :: "(string \<Rightarrow> int option) \<Rightarrow> providerRecord \<Rightarrow> go_error + Flight" where
  "normalize tzdb r =
     (case r of
        Garuda f \<Rightarrow> garuda_normalize tzdb f
      | LionAir f \<Rightarrow> lion_normalize tzdb f
      | BatikAir f \<Rightarrow> batik_normalize tzdb f
      | AirAsia f \<Rightarrow> airasia_normalize tzdb f)"

section \<open>What the specification says of the pipeline\<close>

text \<open>
  The best-value score in the specification's words: the maxima are taken over the
  flights given (the filtered set), a term is 0 when its maximum is 0, and the weighted
  sum is rounded to two decimals.
\<close>

definition specMaxPrice :: "Flight list \<Rightarrow> real" where
  "specMaxPrice fs = Max (set (map (\<lambda>f. Amount (FlightPrice f)) fs))"

definition specMaxDuration :: "Flight list \<Rightarrow> real" where
  "specMaxDuration fs = Max (set (map (\<lambda>f. real_of_int (TotalMinutes (FlightDuration f))) fs))"

definition specScore :: "Flight list \<Rightarrow> Flight \<Rightarrow> real" where
  "specScore fs f =
     (let maxPrice = specMaxPrice fs;
          maxDuration = specMaxDuration fs;
          priceTerm = (if maxPrice = 0 then 0 else 100 * Amount (FlightPrice f) / maxPrice);
          durationTerm = (if maxDuration = 0 then 0
                          else 100 * real_of_int (TotalMinutes (FlightDuration f)) / maxDuration);
          stopsTerm = 15 * real_of_int (Stops f)
      in mathRound ((0.5 * priceTerm + 0.3 * durationTerm + 0.2 * stopsTerm) * 100) / 100)"

text \<open>
  The order of the sort stage: flights compared by the selected key, instants by seconds
  and nanoseconds; a key that is not one of the six is the price.
\<close>

definition instantLe :: "GoTime \<Rightarrow> GoTime \<Rightarrow> bool" where
  "instantLe t u \<longleftrightarrow> unixSec t < unixSec u \<or> (unixSec t = unixSec u \<and> nsec t \<le> nsec u)"

definition keyLe :: "string \<Rightarrow> Flight \<Rightarrow> Flight \<Rightarrow> bool" where
  "keyLe k a b =
     (if k = ''duration'' then TotalMinutes (FlightDuration a) \<le> TotalMinutes (FlightDuration b)
      else if k = ''departure'' then instantLe (Time (Departure a)) (Time (Departure b))
      else if k = ''arrival'' then instantLe (Time (Arrival a)) (Time (Arrival b))
      else if k = ''best_value'' then BestValueScore a \<le> BestValueScore b
      else if k = ''stops'' then Stops a \<le> Stops b
      else Amount (FlightPrice a) \<le> Amount (FlightPrice b))"

definition sortKeys :: "string list" where
  "sortKeys = [''price'', ''duration'', ''departure'', ''arrival'', ''best_value'', ''stops'']"

definition orderedBy :: "string \<Rightarrow> string \<Rightarrow> Flight list \<Rightarrow> bool" where
  "orderedBy sortBy sortOrder out =
     (if ToLower sortBy \<in> set sortKeys \<and> ToLower sortOrder = ''desc''
      then sorted_wrt (\<lambda>a b. keyLe (ToLower sortBy) b a) out
      else sorted_wrt (keyLe (ToLower sortBy)) out)"

section \<open>Example data\<close>

definition exFlight :: "string \<Rightarrow> string \<Rightarrow> real \<Rightarrow> int \<Rightarrow> int \<Rightarrow> Flight" where
  "exFlight ident prov amount mins stops =
     \<lparr>ID = ident, Provider = prov,
      FlightAirline = \<lparr>Code = ''GA'', Name = ''Garuda Indonesia''\<rparr>,
      FlightNumber = ident,
      Departure = \<lparr>Airport = ''CGK'', City = ''Jakarta'', Terminal = None,
                   Time = \<lparr>unixSec = 1765760400, nsec = 0, zoneOff = 25200\<rparr>, Timezone = ''WIB''\<rparr>,
      Arrival = \<lparr>Airport = ''DPS'', City = ''Denpasar'', Terminal = None,
                 Time = \<lparr>unixSec = 1765760400 + mins * 60, nsec = 0, zoneOff = 28800\<rparr>,
                 Timezone = ''WITA''\<rparr>,
      FlightDuration = \<lparr>Hours = mins sdiv 60, Minutes = mins smod 60, TotalMinutes = mins\<rparr>,
      Stops = stops, Layovers = [],
      FlightPrice = \<lparr>Amount = amount, Currency = ''IDR''\<rparr>,
      AvailableSeats = 9, CabinClass = ''economy'', Aircraft = None, Amenities = [],
      BestValueScore = 0\<rparr>"

definition exA :: Flight where "exA = exFlight ''GA-400'' ''garuda'' 1000000 110 0"
definition exB :: Flight where "exB = exFlight ''JT-740'' ''lionair'' 1000000 120 0"
definition exC :: Flight where "exC = exFlight ''ID-6514'' ''batikair'' 2000000 240 1"

definition exDirectOnly :: SearchFilters where
  "exDirectOnly = \<lparr>PriceMin = None, PriceMax = None, MaxStops = Some 0, Airlines = [],
                    DepartureTimeMin = None, DepartureTimeMax = None, ArrivalTimeMin = None,
                    ArrivalTimeMax = None, MaxDuration = None\<rparr>"

definition noZones :: "string \<Rightarrow> int option" where
  "noZones name = None"

definition exGaruda :: garudaFlight where
  "exGaruda =
     \<lparr>garuda_FlightID = ''GA400_CGK_DPS'',
      garuda_Airline = \<lparr>garuda_Code = ''GA'', garuda_Name = ''Garuda Indonesia''\<rparr>,
      garuda_FlightNumber = ''GA400'',
      garuda_Departure = \<lparr>garuda_Airport = ''CGK'', garuda_City = ''Jakarta'',
                           garuda_Terminal = ''3'', garuda_Time = ''2025-12-15T08:00:00+0700''\<rparr>,
      garuda_Arrival = \<lparr>garuda_Airport = ''DPS'', garuda_City = ''Denpasar'',
                         garuda_Terminal = ''I'', garuda_Time = ''2025-12-15T10:50:00+0800''\<rparr>,
      garuda_Duration = 110, garuda_Stops = 0, garuda_Layovers = [],
      garuda_Price = \<lparr>garuda_Amount = 1250000, garuda_Currency = ''IDR''\<rparr>,
      garuda_Seats = 28, garuda_CabinClass = ''economy'', garuda_Aircraft = ''Boeing 737-800'',
      garuda_Amenities = [''wifi'', ''meal'']\<rparr>"

definition exGarudaOut :: Flight where
  "exGarudaOut =
     \<lparr>ID = ''GA400_CGK_DPS'', Provider = ''garuda'',
      FlightAirline = \<lparr>Code = ''GA'', Name = ''Garuda Indonesia''\<rparr>,
      FlightNumber = ''GA400'',
      Departure = \<lparr>Airport = ''CGK'', City = ''Jakarta'', Terminal = Some ''3'',
                   Time = \<lparr>unixSec = 1765760400, nsec = 0, zoneOff = 25200\<rparr>, Timezone = ''WIB''\<rparr>,
      Arrival = \<lparr>Airport = ''DPS'', City = ''Denpasar'', Terminal = Some ''I'',
                 Time = \<lparr>unixSec = 1765767000, nsec = 0, zoneOff = 28800\<rparr>, Timezone = ''WITA''\<rparr>,
      FlightDuration = \<lparr>Hours = 1, Minutes = 50, TotalMinutes = 110\<rparr>,
      Stops = 0, Layovers = [],
      FlightPrice = \<lparr>Amount = 1250000, Currency = ''IDR''\<rparr>,
      AvailableSeats = 28, CabinClass = ''economy'', Aircraft = Some ''Boeing 737-800'',
      Amenities = [''wifi'', ''meal''], BestValueScore = 0\<rparr>"

definition exBatik :: batikFlight where
  "exBatik =
     \<lparr>batik_FlightID = ''ID7042'',
      batik_OperatingCarrier = \<lparr>batik_CarrierCode = ''ID'', batik_CarrierName = ''Batik Air''\<rparr>,
      batik_FlightNo = ''ID7042'',
      batik_DepartureInfo = \<lparr>batik_DepAirportCode = ''CGK'', batik_DepCityName = ''Jakarta'',
                               batik_DepTerminalNo = ''2D'',
                               batik_DepartureTime = ''2025-12-15T11:00:00+0700''\<rparr>,
      batik_ArrivalInfo = \<lparr>batik_ArrAirportCode = ''DPS'', batik_ArrCityName = ''Denpasar'',
                             batik_ArrTerminalNo = '''',
                             batik_ArrivalTime = ''2025-12-15T14:15:00+0800''\<rparr>,
      batik_TravelTime = ''2h 15m'',
      batik_NumberOfStops = 1,
      batik_ConnectionPoints = [\<lparr>batik_Airport = ''SUB'', batik_City = ''Surabaya'',
                                  batik_LayoverMinutes = 40\<rparr>],
      batik_Fare = \<lparr>batik_TotalPrice = 950000, batik_CurrencyCode = ''IDR''\<rparr>,
      batik_SeatsAvailable = 41, batik_CabinType = ''economy'',
      batik_AircraftType = ''Airbus A320'', batik_IncludedServices = [''snack'']\<rparr>"

definition exBatikOut :: Flight where
  "exBatikOut =
     \<lparr>ID = ''ID7042'', Provider = ''batikair'',
      FlightAirline = \<lparr>Code = ''ID'', Name = ''Batik Air''\<rparr>,
      FlightNumber = ''ID7042'',
      Departure = \<lparr>Airport = ''CGK'', City = ''Jakarta'', Terminal = Some ''2D'',
                   Time = \<lparr>unixSec = 1765771200, nsec = 0, zoneOff = 25200\<rparr>, Timezone = ''WIB''\<rparr>,
      Arrival = \<lparr>Airport = ''DPS'', City = ''Denpasar'', Terminal = None,
                 Time = \<lparr>unixSec = 1765779300, nsec = 0, zoneOff = 28800\<rparr>, Timezone = ''WITA''\<rparr>,
      FlightDuration = \<lparr>Hours = 2, Minutes = 15, TotalMinutes = 135\<rparr>,
      Stops = 1,
      Layovers = [\<lparr>LayoverAirport = ''SUB'', LayoverCity = ''Surabaya'', LayoverDuration = 40\<rparr>],
      FlightPrice = \<lparr>Amount = 950000, Currency = ''IDR''\<rparr>,
      AvailableSeats = 41, CabinClass = ''economy'', Aircraft = Some ''Airbus A320'',
      Amenities = [''snack''], BestValueScore = 0\<rparr>"

text \<open>An AirAsia offer that is flagged direct and lists a stop.\<close>

definition exAirAsiaDirect :: airasiaFlight where
  "exAirAsiaDirect =
     \<lparr>airasia_OfferID = ''QZ7520'',
      airasia_MarketingCarrier = \<lparr>airasia_AirlineCode = ''QZ'', airasia_AirlineName = ''AirAsia''\<rparr>,
      airasia_FlightNum = ''QZ7520'',
      airasia_From = \<lparr>airasia_IATA = ''CGK'', airasia_CityName = ''Jakarta''\<rparr>,
      airasia_To = \<lparr>airasia_IATA = ''DPS'', airasia_CityName = ''Denpasar''\<rparr>,
      airasia_DepartAt = ''2025-12-15T15:15:00+07:00'',
      airasia_ArriveAt = ''2025-12-15T20:35:00+08:00'',
      airasia_DurationHours = 4.33,
      airasia_DirectFlight = True,
      airasia_Stops = [\<lparr>airasia_StopAirport = ''SOC'', airasia_StopCity = ''Solo'',
                        airasia_StopDurationMin = 95\<rparr>],
      airasia_PriceIDR = 485000, airasia_SeatsLeft = 88, airasia_TravelClass = ''economy'',
      airasia_Equipment = ''Airbus A320'', airasia_Perks = []\<rparr>"

definition exAirAsiaDirectOut :: Flight where
  "exAirAsiaDirectOut =
     \<lparr>ID = ''QZ7520'', Provider = ''airasia'',
      FlightAirline = \<lparr>Code = ''QZ'', Name = ''AirAsia''\<rparr>,
      FlightNumber = ''QZ7520'',
      Departure = \<lparr>Airport = ''CGK'', City = ''Jakarta'', Terminal = None,
                   Time = \<lparr>unixSec = 1765786500, nsec = 0, zoneOff = 25200\<rparr>, Timezone = ''WIB''\<rparr>,
      Arrival = \<lparr>Airport = ''DPS'', City = ''Denpasar'', Terminal = None,
                 Time = \<lparr>unixSec = 1765802100, nsec = 0, zoneOff = 28800\<rparr>, Timezone = ''WITA''\<rparr>,
      FlightDuration = \<lparr>Hours = 4, Minutes = 20, TotalMinutes = 260\<rparr>,
      Stops = 0,
      Layovers = [\<lparr>LayoverAirport = ''SOC'', LayoverCity = ''Solo'', LayoverDuration = 95\<rparr>],
      FlightPrice = \<lparr>Amount = 485000, Currency = ''IDR''\<rparr>,
      AvailableSeats = 88, CabinClass = ''economy'', Aircraft = Some ''Airbus A320'',
      Amenities = [], BestValueScore = 0\<rparr>"

section \<open>Properties of filtering, ranking and sorting\<close>

lemma filterLoop_filter: "filterLoop fl acc fs = acc @ filter (\<lambda>f. matchesFilters f fl) fs"
  by (induction fs arbitrary: acc) auto

lemma applyFilters_filter:
  "applyFilters flights filters =
     (case filters of None \<Rightarrow> flights | Some fl \<Rightarrow> filter (\<lambda>f. matchesFilters f fl) flights)"
  by (simp add: applyFilters_def filterLoop_filter split: option.splits)

lemma set_applyFilters: "set (applyFilters flights filters) \<subseteq> set flights"
  by (auto simp: applyFilters_filter split: option.splits)

lemma applyFilters_example: "applyFilters [exA, exB, exC] (Some exDirectOnly) = [exA, exB]"
  by (simp add: applyFilters_def matchesFilters_def exDirectOnly_def exA_def exB_def exC_def
      exFlight_def belowMin_def aboveMax_def)

text \<open>
  C10. The filtering stage returns a subsequence of its input: every output flight is a
  flight of the input, no flight occurs more often than in the input, the order of the
  input is kept, and without filters the input is returned as it is.
\<close>

theorem applyFilters_subseq:
  "subseq (applyFilters flights filters) flights
   \<and> set (applyFilters flights filters) \<subseteq> set flights
   \<and> mset (applyFilters flights filters) \<subseteq># mset flights
   \<and> applyFilters flights None = flights"
proof -
  have "subseq (applyFilters flights filters) flights"
    by (simp add: applyFilters_filter split: option.splits)
  moreover have "mset (applyFilters flights filters) \<subseteq># mset flights"
    by (simp add: applyFilters_filter split: option.splits)
  moreover have "applyFilters flights None = flights"
    by (simp add: applyFilters_def)
  ultimately show ?thesis using set_applyFilters by blast
qed

theorem applyFilters_subseq_witness:
  "subseq [exA, exB] [exA, exB, exC] \<and> applyFilters [exA, exB, exC] None = [exA, exB, exC]"
  using applyFilters_subseq [of "[exA, exB, exC]" "Some exDirectOnly"]
  by (simp add: applyFilters_example)

subsection \<open>The maxima of the ranking stage\<close>

lemma maxPriceLoop_fold:
  "maxPriceLoop m fs = fold max (map (\<lambda>f. Amount (FlightPrice f)) fs) m"
  by (induction fs arbitrary: m) (auto simp: max_def)

lemma maxPriceLoop_Max:
  "maxPriceLoop m fs = Max (set (m # map (\<lambda>f. Amount (FlightPrice f)) fs))"
  by (simp only: maxPriceLoop_fold Max.set_eq_fold)

lemma maxDurationLoop_fold:
  "maxDurationLoop m fs = fold max (map (\<lambda>f. real_of_int (TotalMinutes (FlightDuration f))) fs) m"
  by (induction fs arbitrary: m) (auto simp: max_def Let_def)

lemma maxDurationLoop_Max:
  "maxDurationLoop m fs = Max (set (m # map (\<lambda>f. real_of_int (TotalMinutes (FlightDuration f))) fs))"
  by (simp only: maxDurationLoop_fold Max.set_eq_fold)

lemma Max_insert_zero:
  fixes S :: "real set"
  assumes "finite S" "S \<noteq> {}" "\<forall>x\<in>S. 0 \<le> x"
  shows "Max (insert 0 S) = Max S"
proof -
  have "Max S \<in> S" using assms by simp
  then have "0 \<le> Max S" using assms by blast
  then show ?thesis using assms by (simp add: max_def)
qed

lemma findMaxPrice_nonneg: "0 \<le> findMaxPrice fs"
  unfolding findMaxPrice_def maxPriceLoop_Max by (rule Max_ge) simp_all

lemma findMaxDuration_nonneg: "0 \<le> findMaxDuration fs"
  unfolding findMaxDuration_def maxDurationLoop_Max by (rule Max_ge) simp_all

lemma findMaxPrice_spec:
  assumes "fs \<noteq> []" "\<forall>f\<in>set fs. 0 \<le> Amount (FlightPrice f)"
  shows "findMaxPrice fs = specMaxPrice fs"
proof -
  let ?S = "set (map (\<lambda>f. Amount (FlightPrice f)) fs)"
  have "finite ?S" "?S \<noteq> {}" "\<forall>x\<in>?S. 0 \<le> x" using assms by auto
  then have "Max (insert 0 ?S) = Max ?S" by (rule Max_insert_zero)
  then show ?thesis
    by (simp only: findMaxPrice_def specMaxPrice_def maxPriceLoop_Max list.set)
qed

lemma findMaxDuration_spec:
  assumes "fs \<noteq> []" "\<forall>f\<in>set fs. 0 \<le> TotalMinutes (FlightDuration f)"
  shows "findMaxDuration fs = specMaxDuration fs"
proof -
  let ?S = "set (map (\<lambda>f. real_of_int (TotalMinutes (FlightDuration f))) fs)"
  have "finite ?S" "?S \<noteq> {}" "\<forall>x\<in>?S. 0 \<le> x" using assms by auto
  then have "Max (insert 0 ?S) = Max ?S" by (rule Max_insert_zero)
  then show ?thesis
    by (simp only: findMaxDuration_def specMaxDuration_def maxDurationLoop_Max list.set)
qed

lemma CalculateBestValue_spec:
  assumes "fs \<noteq> []"
    and "\<forall>f\<in>set fs. 0 \<le> Amount (FlightPrice f) \<and> 0 \<le> TotalMinutes (FlightDuration f)"
  shows "CalculateBestValue f (findMaxPrice fs) (findMaxDuration fs) = specScore fs f"
proof -
  have p: "findMaxPrice fs = specMaxPrice fs" using assms by (simp add: findMaxPrice_spec)
  have d: "findMaxDuration fs = specMaxDuration fs" using assms by (simp add: findMaxDuration_spec)
  have p0: "0 \<le> specMaxPrice fs" using findMaxPrice_nonneg [of fs] p by simp
  have d0: "0 \<le> specMaxDuration fs" using findMaxDuration_nonneg [of fs] d by simp
  have pt: "(if specMaxPrice fs > 0 then (Amount (FlightPrice f) / specMaxPrice fs) * 100 else 0)
            = (if specMaxPrice fs = 0 then 0 else 100 * Amount (FlightPrice f) / specMaxPrice fs)"
    using p0 by simp
  have dt: "(if specMaxDuration fs > 0
             then (real_of_int (TotalMinutes (FlightDuration f)) / specMaxDuration fs) * 100 else 0)
            = (if specMaxDuration fs = 0 then 0
               else 100 * real_of_int (TotalMinutes (FlightDuration f)) / specMaxDuration fs)"
    using d0 by simp
  show ?thesis
    unfolding CalculateBestValue_def specScore_def p d Let_def PriceWeight_def DurationWeight_def
      StopsWeight_def pt dt
    by (simp only: mult.commute)
qed

lemma CalculateScores_spec:
  assumes "\<forall>f\<in>set fs. 0 \<le> Amount (FlightPrice f) \<and> 0 \<le> TotalMinutes (FlightDuration f)"
  shows "CalculateScores fs = map (\<lambda>f. f\<lparr>BestValueScore := specScore fs f\<rparr>) fs"
proof (cases "fs = []")
  case True
  then show ?thesis by (simp add: CalculateScores_def)
next
  case False
  have "\<And>f. CalculateBestValue f (findMaxPrice fs) (findMaxDuration fs) = specScore fs f"
    by (rule CalculateBestValue_spec [OF False assms])
  then show ?thesis
    using False by (simp add: CalculateScores_def Let_def)
qed

subsection \<open>The contract of the sort\<close>

lemma sortSlice_mset: "sortSliceContract srt \<Longrightarrow> mset (srt lt xs) = mset xs"
  unfolding sortSliceContract_def by blast

lemma sortSlice_sorted:
  "sortSliceContract srt \<Longrightarrow> strictWeakOrder lt \<Longrightarrow> sorted_wrt (\<lambda>a b. \<not> lt b a) (srt lt xs)"
  unfolding sortSliceContract_def by blast

lemma mset_applySort:
  "sortSliceContract srt \<Longrightarrow> mset (applySort srt flights sortBy sortOrder) = mset flights"
  by (simp add: applySort_def sortSlice_mset)

lemma mset_insertBehind: "mset (insertBehind lt x ys) = add_mset x (mset ys)"
  by (induction ys) auto

lemma mset_tieReversingSort: "mset (tieReversingSort lt xs) = mset xs"
  by (induction xs) (auto simp: tieReversingSort_def mset_insertBehind)

lemma set_insertBehind: "set (insertBehind lt x ys) = insert x (set ys)"
  by (induction ys) auto

lemma sorted_insertBehind:
  assumes "strictWeakOrder lt" "sorted_wrt (\<lambda>a b. \<not> lt b a) ys"
  shows "sorted_wrt (\<lambda>a b. \<not> lt b a) (insertBehind lt x ys)"
  using assms(2)
proof (induction ys)
  case Nil
  then show ?case by simp
next
  case (Cons y ys)
  have irr: "\<And>a. \<not> lt a a" and tr: "\<And>a b c. lt a b \<Longrightarrow> lt b c \<Longrightarrow> lt a c"
    using assms(1) unfolding strictWeakOrder_def by blast+
  show ?case
  proof (cases "lt x y")
    case True
    have "\<not> lt y x" using True irr tr by blast
    moreover have "\<forall>z\<in>set ys. \<not> lt z x" using Cons.prems True tr by auto
    ultimately show ?thesis using Cons.prems True by simp
  next
    case False
    then show ?thesis using Cons by (auto simp: set_insertBehind)
  qed
qed

lemma sorted_tieReversingSort:
  "strictWeakOrder lt \<Longrightarrow> sorted_wrt (\<lambda>a b. \<not> lt b a) (tieReversingSort lt xs)"
  by (induction xs) (auto simp: tieReversingSort_def sorted_insertBehind)

lemma tieReversingSort_contract: "sortSliceContract tieReversingSort"
  unfolding sortSliceContract_def
  using mset_tieReversingSort sorted_tieReversingSort by blast

subsection \<open>Filter, then rank\<close>

lemma specScore_exA: "specScore [exA, exB] exA = 77.5"
  by (simp add: specScore_def specMaxPrice_def specMaxDuration_def exA_def exB_def exFlight_def
      Let_def mathRound_def)

lemma specScore_exB: "specScore [exA, exB] exB = 80"
  by (simp add: specScore_def specMaxPrice_def specMaxDuration_def exA_def exB_def exFlight_def
      Let_def mathRound_def)

text \<open>
  C1. With \<open>sort_by = best_value\<close> the pipeline filters first and ranks the filtered
  flights: its output is, up to the order the sort gives it, the filtered list with every
  flight's score set to \<open>0.5 * (100 * amount / maxPrice) + 0.3 * (100 * total_minutes /
  maxDuration) + 0.2 * (15 * stops)\<close> rounded to two decimals, where \<open>maxPrice\<close> and
  \<open>maxDuration\<close> are the maxima over the filtered flights and a term is 0 when its maximum
  is 0. Amounts and durations are not negative, as the data model has them.
\<close>

theorem Apply_best_value:
  assumes "sortSliceContract srt"
    and "\<forall>f\<in>set flights. 0 \<le> Amount (FlightPrice f) \<and> 0 \<le> TotalMinutes (FlightDuration f)"
  shows "mset (Apply srt flights filters ''best_value'' sortOrder)
         = mset (map (\<lambda>f. f\<lparr>BestValueScore := specScore (applyFilters flights filters) f\<rparr>)
                     (applyFilters flights filters))"
proof -
  let ?filtered = "applyFilters flights filters"
  have "\<forall>f\<in>set ?filtered. 0 \<le> Amount (FlightPrice f) \<and> 0 \<le> TotalMinutes (FlightDuration f)"
    using assms(2) set_applyFilters [of flights filters] by blast
  then have cs: "CalculateScores ?filtered
                 = map (\<lambda>f. f\<lparr>BestValueScore := specScore ?filtered f\<rparr>) ?filtered"
    by (rule CalculateScores_spec)
  have "Apply srt flights filters ''best_value'' sortOrder
        = applySort srt (CalculateScores ?filtered) ''best_value'' sortOrder"
    by (simp add: Apply_def Let_def)
  then show ?thesis
    by (simp only: mset_applySort [OF assms(1)] cs)
qed

text \<open>
  Three flights, of which the dearest and longest has a stop: with the direct-only filter
  the two direct flights are scored against each other (77.5 and 80), not against the
  third.
\<close>

theorem Apply_best_value_witness:
  "mset (Apply tieReversingSort [exA, exB, exC] (Some exDirectOnly) ''best_value'' ''asc'')
   = mset [exA\<lparr>BestValueScore := 77.5\<rparr>, exB\<lparr>BestValueScore := 80\<rparr>]"
proof -
  have nonneg: "\<forall>f\<in>set [exA, exB, exC].
                  0 \<le> Amount (FlightPrice f) \<and> 0 \<le> TotalMinutes (FlightDuration f)"
    by (simp add: exA_def exB_def exC_def exFlight_def)
  show ?thesis
    using Apply_best_value [OF tieReversingSort_contract nonneg, of "Some exDirectOnly" "''asc''"]
    by (simp add: applyFilters_example specScore_exA specScore_exB)
qed

subsection \<open>The order of the sort stage\<close>

lemma swo_key_less:
  fixes key :: "'a \<Rightarrow> 'k::linorder"
  shows "strictWeakOrder (\<lambda>a b. key a < key b)"
  unfolding strictWeakOrder_def by auto

lemma swo_key_greater:
  fixes key :: "'a \<Rightarrow> 'k::linorder"
  shows "strictWeakOrder (\<lambda>a b. key a > key b)"
  unfolding strictWeakOrder_def by auto

lemma swo_Before: "strictWeakOrder (\<lambda>a b. Before (tm a) (tm b))"
  unfolding strictWeakOrder_def Before_def by auto

lemma swo_After: "strictWeakOrder (\<lambda>a b. After (tm a) (tm b))"
  unfolding strictWeakOrder_def After_def by auto

lemma sortLess_swo: "strictWeakOrder (sortLess sortBy sortOrder)"
proof (cases "ToLower sortOrder = ''desc''")
  case True
  then show ?thesis
    unfolding sortLess_def Let_def
    by (simp add: swo_key_less swo_key_greater swo_After)
next
  case False
  then show ?thesis
    unfolding sortLess_def Let_def
    by (simp add: swo_key_less swo_key_greater swo_Before)
qed

lemma not_Before: "(\<not> Before u t) = instantLe t u"
  unfolding Before_def instantLe_def by auto

lemma not_After: "(\<not> After u t) = instantLe u t"
  unfolding After_def instantLe_def by auto

lemma not_sortLess:
  "(\<lambda>a b. \<not> sortLess sortBy sortOrder b a) =
     (if ToLower sortBy \<in> set sortKeys \<and> ToLower sortOrder = ''desc''
      then (\<lambda>a b. keyLe (ToLower sortBy) b a) else keyLe (ToLower sortBy))"
  unfolding sortLess_def Let_def keyLe_def sortKeys_def
  by (auto simp: not_Before not_After not_less fun_eq_iff)

lemma ToLower_price: "ToLower ''price'' = ''price''"
  by (simp add: ToLower_def lowerChar_def)

lemma ToLower_asc: "ToLower ''asc'' = ''asc''"
  by (simp add: ToLower_def lowerChar_def)

lemma ToLower_desc: "ToLower ''desc'' = ''desc''"
  by (simp add: ToLower_def lowerChar_def)

text \<open>
  C4, as the code has it. For every function that meets the contract of \<open>sort.Slice\<close>, the
  sort stage returns a permutation of its input ordered by the selected key (price by
  amount, duration by total minutes, departure and arrival by instant, best value by score,
  stops by count): ascending unless the sort order is \<open>desc\<close>, descending for \<open>desc\<close>, and
  by price ascending, whatever the sort order, for a key that is not recognized. Key and
  order are compared in lower case. For \<open>price\<close> and \<open>asc\<close> the amounts of the output are
  non-decreasing. Nothing is said of the order of flights whose keys are equal.
\<close>

theorem applySort_ordered:
  assumes "sortSliceContract srt"
  shows "mset (applySort srt flights sortBy sortOrder) = mset flights
         \<and> orderedBy sortBy sortOrder (applySort srt flights sortBy sortOrder)
         \<and> sorted (map (\<lambda>f. Amount (FlightPrice f)) (applySort srt flights ''price'' ''asc''))"
proof -
  have ord: "orderedBy sb so (applySort srt flights sb so)" for sb so
  proof (cases "flights = []")
    case True
    then show ?thesis by (simp add: applySort_def orderedBy_def)
  next
    case False
    have "sorted_wrt (\<lambda>a b. \<not> sortLess sb so b a) (srt (sortLess sb so) flights)"
      by (rule sortSlice_sorted [OF assms sortLess_swo])
    then show ?thesis
      using False unfolding applySort_def orderedBy_def not_sortLess by (auto split: if_splits)
  qed
  have "orderedBy ''price'' ''asc'' (applySort srt flights ''price'' ''asc'')" by (rule ord)
  then have "sorted_wrt (\<lambda>a b. Amount (FlightPrice a) \<le> Amount (FlightPrice b))
               (applySort srt flights ''price'' ''asc'')"
    unfolding orderedBy_def keyLe_def ToLower_price ToLower_asc sortKeys_def by simp
  then have "sorted (map (\<lambda>f. Amount (FlightPrice f)) (applySort srt flights ''price'' ''asc''))"
    by (simp add: sorted_map)
  then show ?thesis using ord mset_applySort [OF assms] by blast
qed

lemma applySort_example_desc:
  "applySort tieReversingSort [exA, exC, exB] ''price'' ''desc'' = [exC, exB, exA]"
  by (simp add: applySort_def tieReversingSort_def sortLess_def ToLower_price ToLower_desc
      exA_def exB_def exC_def exFlight_def)

theorem applySort_ordered_witness:
  "mset [exC, exB, exA] = mset [exA, exC, exB]
   \<and> orderedBy ''price'' ''desc'' [exC, exB, exA]
   \<and> applySort tieReversingSort [exA, exC, exB] ''price'' ''desc'' = [exC, exB, exA]"
  using applySort_ordered [OF tieReversingSort_contract, of "[exA, exC, exB]" "''price''" "''desc''"]
  by (simp add: applySort_example_desc)

text \<open>
  The sort stage is not stable under the contract of \<open>sort.Slice\<close>: a function that meets
  the contract returns two flights of equal price in the reverse of their input order,
  where a stable sort by price (\<open>sort_key\<close>) keeps them as they came.
\<close>

theorem applySort_not_stable:
  "sortSliceContract
     (tieReversingSort :: (Flight \<Rightarrow> Flight \<Rightarrow> bool) \<Rightarrow> Flight list \<Rightarrow> Flight list)
   \<and> Amount (FlightPrice exA) = Amount (FlightPrice exB)
   \<and> exA \<noteq> exB
   \<and> applySort tieReversingSort [exA, exB] ''price'' ''asc'' = [exB, exA]
   \<and> sort_key (\<lambda>f. Amount (FlightPrice f)) [exA, exB] = [exA, exB]"
  using tieReversingSort_contract
  by (simp add: applySort_def tieReversingSort_def sortLess_def ToLower_price ToLower_asc
      exA_def exB_def exFlight_def)

section \<open>Properties of the provider adapters\<close>

lemma garuda_normalize_fields:
  assumes "garuda_normalize tzdb f = Inr fl"
  shows "FlightDuration fl = \<lparr>Hours = garuda_Duration f sdiv 60, Minutes = garuda_Duration f smod 60,
                              TotalMinutes = garuda_Duration f\<rparr>"
    and "Stops fl = garuda_Stops f"
    and "length (Layovers fl) = length (garuda_Layovers f)"
  using assms unfolding garuda_normalize_def Let_def
  by (auto split: sum.splits)

lemma lion_normalize_fields:
  assumes "lion_normalize tzdb f = Inr fl"
  shows "FlightDuration fl = \<lparr>Hours = lion_FlightTime f sdiv 60, Minutes = lion_FlightTime f smod 60,
                              TotalMinutes = lion_FlightTime f\<rparr>"
    and "Stops fl = (if lion_IsDirect f then 0 else lion_StopCount f)"
    and "length (Layovers fl) = length (lion_Stopovers f)"
  using assms unfolding lion_normalize_def Let_def
  by (auto split: sum.splits)

lemma batik_normalize_fields:
  assumes "batik_normalize tzdb f = Inr fl"
  shows "FlightDuration fl = \<lparr>Hours = parseTravelTime (batik_TravelTime f) sdiv 60,
                              Minutes = parseTravelTime (batik_TravelTime f) smod 60,
                              TotalMinutes = parseTravelTime (batik_TravelTime f)\<rparr>"
    and "Stops fl = batik_NumberOfStops f"
    and "length (Layovers fl) = length (batik_ConnectionPoints f)"
  using assms unfolding batik_normalize_def Let_def
  by (auto split: sum.splits)

lemma airasia_normalize_fields:
  assumes "airasia_normalize tzdb f = Inr fl"
  shows "FlightDuration fl = \<lparr>Hours = goInt (mathRound (airasia_DurationHours f * 60)) sdiv 60,
                              Minutes = goInt (mathRound (airasia_DurationHours f * 60)) smod 60,
                              TotalMinutes = goInt (mathRound (airasia_DurationHours f * 60))\<rparr>"
    and "Stops fl = (if airasia_DirectFlight f then 0 else int (length (airasia_Stops f)))"
    and "length (Layovers fl) = length (airasia_Stops f)"
  using assms unfolding airasia_normalize_def Let_def
  by (auto split: sum.splits)

lemma sdiv_smod_60: "(t :: int) = t sdiv 60 * 60 + t smod 60"
  by (simp add: sdiv_mult_smod_eq)

lemma normalize_exGaruda: "normalize noZones (Garuda exGaruda) = Inr exGarudaOut"
  by code_simp

lemma normalize_exBatik: "normalize noZones (BatikAir exBatik) = Inr exBatikOut"
  by code_simp

lemma normalize_exAirAsiaDirect: "normalize noZones (AirAsia exAirAsiaDirect) = Inr exAirAsiaDirectOut"
  by code_simp

text \<open>
  C7. Every canonical flight an adapter produces has \<open>total_minutes = hours * 60 +
  minutes\<close>, whether the provider gives the duration as integer minutes (Garuda, Lion Air),
  as fractional hours (AirAsia) or as an \<open>Nh Mm\<close> string (Batik Air).
\<close>

theorem normalize_duration:
  assumes "normalize tzdb r = Inr fl"
  shows "TotalMinutes (FlightDuration fl)
         = Hours (FlightDuration fl) * 60 + Minutes (FlightDuration fl)"
proof (cases r)
  case (Garuda f)
  then show ?thesis
    using assms garuda_normalize_fields(1) [of tzdb f fl] sdiv_smod_60 [of "garuda_Duration f"]
    by (simp add: normalize_def)
next
  case (LionAir f)
  then show ?thesis
    using assms lion_normalize_fields(1) [of tzdb f fl] sdiv_smod_60 [of "lion_FlightTime f"]
    by (simp add: normalize_def)
next
  case (BatikAir f)
  then show ?thesis
    using assms batik_normalize_fields(1) [of tzdb f fl]
      sdiv_smod_60 [of "parseTravelTime (batik_TravelTime f)"]
    by (simp add: normalize_def)
next
  case (AirAsia f)
  then show ?thesis
    using assms airasia_normalize_fields(1) [of tzdb f fl]
      sdiv_smod_60 [of "goInt (mathRound (airasia_DurationHours f * 60))"]
    by (simp add: normalize_def)
qed

theorem normalize_duration_witness:
  "normalize noZones (Garuda exGaruda) = Inr exGarudaOut
   \<and> FlightDuration exGarudaOut = \<lparr>Hours = 1, Minutes = 50, TotalMinutes = 110\<rparr>
   \<and> normalize noZones (BatikAir exBatik) = Inr exBatikOut
   \<and> FlightDuration exBatikOut = \<lparr>Hours = 2, Minutes = 15, TotalMinutes = 135\<rparr>
   \<and> normalize noZones (AirAsia exAirAsiaDirect) = Inr exAirAsiaDirectOut
   \<and> FlightDuration exAirAsiaDirectOut = \<lparr>Hours = 4, Minutes = 20, TotalMinutes = 260\<rparr>
   \<and> TotalMinutes (FlightDuration exAirAsiaDirectOut)
       = Hours (FlightDuration exAirAsiaDirectOut) * 60 + Minutes (FlightDuration exAirAsiaDirectOut)"
  using normalize_duration [OF normalize_exAirAsiaDirect]
    normalize_exGaruda normalize_exBatik normalize_exAirAsiaDirect
  by (simp add: exGarudaOut_def exBatikOut_def exAirAsiaDirectOut_def)

text \<open>
  C8. No more layovers than stops is not kept by the AirAsia adapter: it counts the listed
  stops, sets the count to 0 when the offer is flagged direct, and still copies every listed
  stop into the layovers. An offer flagged direct that lists one stop becomes a canonical
  flight with one layover and no stops.
\<close>

theorem normalize_layovers_exceed_stops:
  "normalize noZones (AirAsia exAirAsiaDirect) = Inr exAirAsiaDirectOut
   \<and> length (Layovers exAirAsiaDirectOut) = 1
   \<and> Stops exAirAsiaDirectOut = 0
   \<and> \<not> int (length (Layovers exAirAsiaDirectOut)) \<le> Stops exAirAsiaDirectOut"
  using normalize_exAirAsiaDirect by (simp add: exAirAsiaDirectOut_def)

section \<open>Properties of the time parser\<close>

text \<open>
  C6. A timestamp without an offset is to be read in the zone of the hint. The first loop
  of \<open>ParseTimeWithOffset\<close> already accepts a naive timestamp that has seconds, and
  \<open>time.Parse\<close> reads it as UTC: with the hint \<open>WITA\<close>, eight o'clock comes back as eight
  o'clock UTC (offset 0), not as eight o'clock at UTC+8. The hint is used only for a naive
  timestamp without seconds, which the first loop rejects.
\<close>

theorem ParseTimeWithOffset_ignores_hint:
  "ParseTimeWithOffset tzdb ''2025-12-15T08:00:00'' ''WITA''
     = Inr \<lparr>unixSec = 1765785600, nsec = 0, zoneOff = 0\<rparr>
   \<and> ParseTimeWithOffset tzdb ''2025-12-15T08:00'' ''WITA''
     = Inr \<lparr>unixSec = 1765756800, nsec = 0, zoneOff = 28800\<rparr>"
  by code_simp

end
